theory Spec2Isabelle
  imports Main "HOL-Library.Word" "HOL-Library.Char_ord" "HOL-Library.List_Lexorder"
begin

section \<open>Python values used by the deployment scripts\<close>

text \<open>
  The dictionaries of this repository map chain IDs to address strings. A chain ID is a
  Python \<open>int\<close> in \<open>deploy.py\<close>; after a trip through JSON a key is a Python
  \<open>str\<close>. Python never identifies the int \<open>1\<close> with the string \<open>"1"\<close>, so a key
  carries its type.
\<close>

datatype py_key = KInt int | KStr string

text \<open>
  A Python dict: its items in insertion order, the keys pairwise distinct. \<open>d[k]\<close> raises
  \<open>KeyError\<close> on a missing key; \<open>d[k] = v\<close> overwrites in place or appends. Two dicts
  are equal when they hold the same items, whatever the order.
\<close>

type_synonym 'v py_dict = "(py_key \<times> 'v) list"

datatype error =
    KeyError py_key
  | TypeError
  | ValueError
  | RpcError

definition getitem :: "'v py_dict \<Rightarrow> py_key \<Rightarrow> error + 'v" where
  "getitem d k = (case map_of d k of None \<Rightarrow> Inl (KeyError k) | Some v \<Rightarrow> Inr v)"

fun setitem :: "'v py_dict \<Rightarrow> py_key \<Rightarrow> 'v \<Rightarrow> 'v py_dict" where
  "setitem [] k v = [(k, v)]"
| "setitem ((k', v') # d) k v = (if k' = k then (k, v) # d else (k', v') # setitem d k v)"

definition dict_eq :: "'v py_dict \<Rightarrow> 'v py_dict \<Rightarrow> bool" where
  "dict_eq d1 d2 \<longleftrightarrow> map_of d1 = map_of d2"

type_synonym byte = "8 word"

subsection \<open>\<open>str\<close> of an int\<close>

definition digit_char :: "nat \<Rightarrow> char" where
  "digit_char n = ''0123456789'' ! n"

fun str_nat :: "nat \<Rightarrow> string" where
  "str_nat n = (if n < 10 then [digit_char n] else str_nat (n div 10) @ [digit_char (n mod 10)])"

declare str_nat.simps [simp del]

definition py_str :: "int \<Rightarrow> string" where
  "py_str i = (if i < 0 then CHR ''-'' # str_nat (nat (- i)) else str_nat (nat i))"

subsection \<open>\<open>bytes.fromhex\<close>\<close>

text \<open>
  \<open>bytes.fromhex\<close> skips ASCII whitespace between bytes, reads two adjacent hexadecimal
  digits per byte and raises \<open>ValueError\<close> on anything else.
\<close>

definition hexval :: "char \<Rightarrow> nat option" where
  "hexval c =
     (let n = (of_char c :: nat) in
      if 48 \<le> n \<and> n \<le> 57 then Some (n - 48)
      else if 97 \<le> n \<and> n \<le> 102 then Some (n - 87)
      else if 65 \<le> n \<and> n \<le> 70 then Some (n - 55)
      else None)"

definition isspace :: "char \<Rightarrow> bool" where
  "isspace c \<longleftrightarrow> (of_char c :: nat) \<in> {9, 10, 11, 12, 13, 32}"

fun fromhex :: "string \<Rightarrow> error + byte list" where
  "fromhex [] = Inr []"
| "fromhex [c] = (if isspace c then Inr [] else Inl ValueError)"
| "fromhex (c # d # cs) =
     (if isspace c then fromhex (d # cs)
      else case (hexval c, hexval d) of
             (Some h, Some l) \<Rightarrow>
               (case fromhex cs of
                  Inl e \<Rightarrow> Inl e
                | Inr bs \<Rightarrow> Inr (of_nat (16 * h + l) # bs))
           | _ \<Rightarrow> Inl ValueError)"

text \<open>An account address as \<open>boa.env.eoa\<close> holds it: \<open>0x\<close> and 40 hexadecimal digits.\<close>

definition is_address :: "string \<Rightarrow> bool" where
  "is_address a \<longleftrightarrow>
     length a = 42 \<and> take 2 a = ''0x'' \<and> (\<forall>c \<in> set (drop 2 a). hexval c \<noteq> None)"

section \<open>Network registry (gas\_bridger/constants.py, deploy/deploy.py)\<close>

datatype Network = ArbitrumSepolia | Sepolia

fun network_value :: "Network \<Rightarrow> int" where
  "network_value ArbitrumSepolia = 421614"
| "network_value Sepolia = 11155111"

definition supported_chain :: "int \<Rightarrow> bool" where
  "supported_chain c \<longleftrightarrow> c \<in> set (map network_value [ArbitrumSepolia, Sepolia])"

definition LZ_EID :: "int py_dict" where
  "LZ_EID = [(KInt (network_value ArbitrumSepolia), 1), (KInt (network_value Sepolia), 1)]"

definition lz_endpoints :: "string py_dict" where
  "lz_endpoints =
     [(KInt 421614, ''0x6EDCE65403992e310A62460808c4b910D972f10f''),
      (KInt 11155111, ''0x6EDCE65403992e310A62460808c4b910D972f10f'')]"

section \<open>Files and the outside world\<close>

text \<open>
  The JSON file, when it exists, holds an object of string values, as
  \<open>update_config\<close> writes it: members in order, every key a string. \<open>json.dump\<close> turns
  an int key into its decimal string; \<open>json.loads\<close> builds the dict member by member, a
  repeated key keeping its first position and its last value.
\<close>

type_synonym json_object = "(string \<times> string) list"

fun json_key :: "py_key \<Rightarrow> string" where
  "json_key (KInt i) = py_str i"
| "json_key (KStr s) = s"

definition json_dump :: "string py_dict \<Rightarrow> json_object" where
  "json_dump d = map (\<lambda>(k, v). (json_key k, v)) d"

definition json_loads :: "json_object \<Rightarrow> string py_dict" where
  "json_loads obj = foldl (\<lambda>d (k, v). setitem d (KStr k) v) [] obj"

text \<open>
  The YAML file, when it exists, is empty (\<open>yaml.safe_load\<close> returns \<open>None\<close>) or holds
  a mapping of strings, its items in the order of the text. YAML keeps the type of a key.
  \<open>yaml.safe_dump\<close> writes the items sorted by key: ints by value, strings by code point.
  When the keys are of both types the comparison raises \<open>TypeError\<close>, which the dumper
  catches, and the items go out in insertion order.
\<close>

datatype yaml_doc = YNull | YMap "string py_dict"

fun safe_load :: "yaml_doc \<Rightarrow> string py_dict option" where
  "safe_load YNull = None"
| "safe_load (YMap d) = Some d"

fun is_int_key :: "py_key \<Rightarrow> bool" where
  "is_int_key (KInt i) = True"
| "is_int_key (KStr s) = False"

fun is_str_key :: "py_key \<Rightarrow> bool" where
  "is_str_key (KInt i) = False"
| "is_str_key (KStr s) = True"

fun int_of_key :: "py_key \<Rightarrow> int" where
  "int_of_key (KInt i) = i"
| "int_of_key (KStr s) = 0"

fun str_of_key :: "py_key \<Rightarrow> string" where
  "str_of_key (KInt i) = []"
| "str_of_key (KStr s) = s"

definition sorted_items :: "'v py_dict \<Rightarrow> 'v py_dict" where
  "sorted_items d =
     (if list_all (\<lambda>p. is_int_key (fst p)) d then sort_key (\<lambda>p. int_of_key (fst p)) d
      else if list_all (\<lambda>p. is_str_key (fst p)) d then sort_key (\<lambda>p. str_of_key (fst p)) d
      else d)"

definition safe_dump :: "string py_dict \<Rightarrow> yaml_doc" where
  "safe_dump d = YMap (sorted_items d)"

text \<open>The calls that leave the process, in the order they are made.\<close>

datatype call =
    SetNetworkEnv
  | AddAccount
  | DeployCreate3 "byte list" "byte list"
  | ContractSetPeer string int string

fun is_peer_call :: "call \<Rightarrow> bool" where
  "is_peer_call (ContractSetPeer a n h) = True"
| "is_peer_call _ = False"

record world =
  yaml_file :: "yaml_doc option"
  json_file :: "json_object option"
  abi_file :: "string option"
  calls :: "call list"

text \<open>
  What a run reads from its surroundings: the chain the provider is connected to, the
  deployer's address, the random source, the compiled contract, the ABI encoder, and how
  the factory and the deployed contract answer.
\<close>

record env =
  chain_id :: int
  eoa :: string
  urandom :: "nat \<Rightarrow> byte list"
  bytecode :: "byte list"
  abi_encode :: "string \<Rightarrow> int \<Rightarrow> byte list"
  deployCreate3 :: "byte list \<Rightarrow> byte list \<Rightarrow> string option"
  contract_abi :: "string \<Rightarrow> string"
  set_peer_tx :: "string \<Rightarrow> int \<Rightarrow> string \<Rightarrow> bool"

section \<open>ChainMarketManager (gas\_bridger/relayer\_config.py)\<close>

definition load_config :: "world \<Rightarrow> string py_dict option" where
  "load_config w = (case json_file w of None \<Rightarrow> None | Some obj \<Rightarrow> Some (json_loads obj))"

definition update_config :: "string py_dict \<Rightarrow> world \<Rightarrow> world" where
  "update_config json_config w = w\<lparr>json_file := Some (json_dump json_config)\<rparr>"

section \<open>The deploy workflow (deploy/deploy.py)\<close>

definition connect :: "world \<Rightarrow> world" where
  "connect w = w\<lparr>calls := calls w @ [SetNetworkEnv, AddAccount]\<rparr>"

definition salt_view :: "string \<Rightarrow> byte list \<Rightarrow> error + byte list" where
  "salt_view deployer_eoa bytes_view =
     (case fromhex (drop 2 deployer_eoa @ ''00'') of
        Inl e \<Rightarrow> Inl e
      | Inr guard_bytes \<Rightarrow> Inr (guard_bytes @ bytes_view))"

text \<open>
  Both \<open>deploy\<close> and \<open>set_peer\<close> start from \<open>{}\<close> and replace it by what the YAML file
  holds when the file exists.
\<close>

definition read_deployments :: "world \<Rightarrow> string py_dict option" where
  "read_deployments w = (case yaml_file w of None \<Rightarrow> Some [] | Some doc \<Rightarrow> safe_load doc)"

text \<open>
  A run takes the surroundings and the world and returns the world it leaves, with
  \<open>Inr ()\<close> when it ends normally and \<open>Inl\<close> of the exception that ended it otherwise.

  \<open>set_peer\<close>: connect; read the deployments; \<open>deployments[chain_id]\<close> is evaluated first,
  to bind the contract, then \<open>deployments[11155111]\<close> as an argument, and only then is
  \<open>contract.set_peer(4294967294, ...)\<close> called.
\<close>

definition set_peer :: "env \<Rightarrow> world \<Rightarrow> (error + unit) \<times> world" where
  "set_peer e w0 =
     (let w1 = connect w0 in
      case read_deployments w1 of
        None \<Rightarrow> (Inl TypeError, w1)
      | Some deployments \<Rightarrow>
        (case getitem deployments (KInt (chain_id e)) of
           Inl err \<Rightarrow> (Inl err, w1)
         | Inr contract \<Rightarrow>
           (case getitem deployments (KInt 11155111) of
              Inl err \<Rightarrow> (Inl err, w1)
            | Inr peer \<Rightarrow>
              let w2 = w1\<lparr>calls := calls w1 @ [ContractSetPeer contract 4294967294 peer]\<rparr> in
              if set_peer_tx e contract 4294967294 peer then (Inr (), w2)
              else (Inl RpcError, w2))))"

text \<open>
  \<open>deploy\<close>: connect; build the salt; look the messaging endpoint up and append its
  encoding, with the gas limit 500000, to the bytecode; call the factory; write the ABI
  file; read the deployments, set the entry of this chain and write them back; unless the
  chain is 11155111, run \<open>set_peer\<close>. Reading the factory's ABI, compiling the contract
  and logging are left out: they touch nothing that is modelled here.
\<close>

definition deploy :: "env \<Rightarrow> world \<Rightarrow> (error + unit) \<times> world" where
  "deploy e w0 =
     (let w1 = connect w0 in
      case salt_view (eoa e) (urandom e 11) of
        Inl err \<Rightarrow> (Inl err, w1)
      | Inr salt \<Rightarrow>
        (case getitem lz_endpoints (KInt (chain_id e)) of
           Inl err \<Rightarrow> (Inl err, w1)
         | Inr endpoint \<Rightarrow>
           let deploycode = bytecode e @ abi_encode e endpoint 500000;
               w2 = w1\<lparr>calls := calls w1 @ [DeployCreate3 salt deploycode]\<rparr> in
           (case deployCreate3 e salt deploycode of
              None \<Rightarrow> (Inl RpcError, w2)
            | Some address \<Rightarrow>
              let w3 = w2\<lparr>abi_file := Some (contract_abi e address)\<rparr> in
              (case read_deployments w3 of
                 None \<Rightarrow> (Inl TypeError, w3)
               | Some deployments \<Rightarrow>
                 let w4 = w3\<lparr>yaml_file :=
                            Some (safe_dump (setitem deployments (KInt (chain_id e)) address))\<rparr> in
                 if chain_id e \<noteq> 11155111 then set_peer e w4 else (Inr (), w4)))))"

text \<open>The world once the Deploy stage has run to its end: factory called, ABI and YAML written.\<close>

definition deployed_world :: "env \<Rightarrow> world \<Rightarrow> byte list \<Rightarrow> string \<Rightarrow> string \<Rightarrow> string py_dict \<Rightarrow> world" where
  "deployed_world e w salt endpoint address d =
     w\<lparr>calls := calls w @ [SetNetworkEnv, AddAccount,
                            DeployCreate3 salt (bytecode e @ abi_encode e endpoint 500000)],
       abi_file := Some (contract_abi e address),
       yaml_file := Some (safe_dump (setitem d (KInt (chain_id e)) address))\<rparr>"

text \<open>
  The Deploy stage of a run completes: the salt is built, the chain has a messaging
  endpoint, the factory returns an address for this salt and this code, and what is read
  from the deployments file is a mapping.
\<close>

definition deploy_stage ::
  "env \<Rightarrow> world \<Rightarrow> byte list \<Rightarrow> string \<Rightarrow> string \<Rightarrow> string py_dict \<Rightarrow> bool" where
  "deploy_stage e w salt endpoint address d \<longleftrightarrow>
     salt_view (eoa e) (urandom e 11) = Inr salt
     \<and> getitem lz_endpoints (KInt (chain_id e)) = Inr endpoint
     \<and> deployCreate3 e salt (bytecode e @ abi_encode e endpoint 500000) = Some address
     \<and> read_deployments w = Some d"

section \<open>Sample surroundings\<close>

definition fresh_world :: world where
  "fresh_world = \<lparr>yaml_file = None, json_file = None, abi_file = None, calls = []\<rparr>"

definition sample_env :: "int \<Rightarrow> env" where
  "sample_env c =
     \<lparr>chain_id = c,
      eoa = ''0xba5Ed099633D3B313e4D5F7bdc1305d3c28ba5Ed'',
      urandom = (\<lambda>n. replicate n 7),
      bytecode = [96, 128],
      abi_encode = (\<lambda>a n. []),
      deployCreate3 = (\<lambda>s c. Some ''0x00000000000000000000000000000000000000A1''),
      contract_abi = (\<lambda>a. ''[]''),
      set_peer_tx = (\<lambda>a n h. True)\<rparr>"

definition failing_env :: env where
  "failing_env = (sample_env 421614)\<lparr>deployCreate3 := (\<lambda>s c. None)\<rparr>"

definition sample_salt :: "byte list" where
  "sample_salt =
     [186, 94, 208, 153, 99, 61, 59, 49, 62, 77, 95, 123, 220, 19, 5, 211, 194, 139,
      165, 237, 0, 7, 7, 7, 7, 7, 7, 7, 7, 7, 7, 7]"

definition sample_endpoint :: string where
  "sample_endpoint = ''0x6EDCE65403992e310A62460808c4b910D972f10f''"

definition sample_address :: string where
  "sample_address = ''0x00000000000000000000000000000000000000A1''"

definition home_address :: string where
  "home_address = ''0x00000000000000000000000000000000000000B2''"

definition peered_world :: world where
  "peered_world =
     fresh_world\<lparr>yaml_file := Some (YMap [(KInt 11155111, home_address)])\<rparr>"

section \<open>Dictionaries\<close>

lemma map_of_setitem: "map_of (setitem d k v) = (map_of d)(k \<mapsto> v)"
  by (induction d) (auto simp: fun_eq_iff)

lemma setitem_new: "k \<notin> fst ` set d \<Longrightarrow> setitem d k v = d @ [(k, v)]"
  by (induction d) auto

lemma map_of_first: "map_of xs k = (case filter (\<lambda>p. fst p = k) xs of [] \<Rightarrow> None | p # _ \<Rightarrow> Some (snd p))"
  by (induction xs) auto

lemma map_of_sort_key:
  assumes "\<And>p q. p \<in> set xs \<Longrightarrow> q \<in> set xs \<Longrightarrow> f (fst p) = f (fst q) \<Longrightarrow> fst p = fst q"
  shows "map_of (sort_key (\<lambda>p. f (fst p)) xs) = map_of xs"
proof
  fix k
  show "map_of (sort_key (\<lambda>p. f (fst p)) xs) k = map_of xs k"
  proof (cases "k \<in> fst ` set xs")
    case False
    then have "map_of xs k = None" by (simp add: map_of_eq_None_iff)
    moreover from False have "map_of (sort_key (\<lambda>p. f (fst p)) xs) k = None"
      by (simp add: map_of_eq_None_iff)
    ultimately show ?thesis by simp
  next
    case True
    have same: "filter (\<lambda>p. fst p = k) ys = filter (\<lambda>p. fst p = k) (filter (\<lambda>p. f (fst p) = f k) ys)" for ys :: "('a \<times> 'b) list"
      by (induction ys) auto
    have "filter (\<lambda>p. fst p = k) (sort_key (\<lambda>p. f (fst p)) xs)
            = filter (\<lambda>p. fst p = k) (filter (\<lambda>p. f (fst p) = f k) (sort_key (\<lambda>p. f (fst p)) xs))"
      by (rule same)
    also have "\<dots> = filter (\<lambda>p. fst p = k) (filter (\<lambda>p. f (fst p) = f k) xs)"
      by (simp only: sort_key_stable)
    also have "\<dots> = filter (\<lambda>p. fst p = k) xs"
      by (rule same [symmetric])
    finally show ?thesis
      by (simp only: map_of_first)
  qed
qed

lemma int_keys_inj: "is_int_key a \<Longrightarrow> is_int_key b \<Longrightarrow> int_of_key a = int_of_key b \<Longrightarrow> a = b"
  by (cases a; cases b) simp_all

lemma str_keys_inj: "is_str_key a \<Longrightarrow> is_str_key b \<Longrightarrow> str_of_key a = str_of_key b \<Longrightarrow> a = b"
  by (cases a; cases b) simp_all

lemma map_of_sorted_items: "map_of (sorted_items d) = map_of d"
proof (cases "list_all (\<lambda>p. is_int_key (fst p)) d")
  case True
  then have "map_of (sort_key (\<lambda>p. int_of_key (fst p)) d) = map_of d"
    by (intro map_of_sort_key int_keys_inj) (simp_all add: list_all_iff)
  with True show ?thesis by (simp add: sorted_items_def)
next
  case False
  show ?thesis
  proof (cases "list_all (\<lambda>p. is_str_key (fst p)) d")
    case True
    then have "map_of (sort_key (\<lambda>p. str_of_key (fst p)) d) = map_of d"
      by (intro map_of_sort_key str_keys_inj) (simp_all add: list_all_iff)
    with True False show ?thesis by (simp add: sorted_items_def)
  next
    case no: False
    with False show ?thesis by (simp add: sorted_items_def)
  qed
qed

lemma json_loads_acc:
  "distinct (map fst obj) \<Longrightarrow> fst ` set acc \<inter> KStr ` fst ` set obj = {} \<Longrightarrow>
   foldl (\<lambda>d (k, v). setitem d (KStr k) v) acc obj = acc @ map (\<lambda>(k, v). (KStr k, v)) obj"
proof (induction obj arbitrary: acc)
  case Nil
  then show ?case by simp
next
  case (Cons p obj)
  obtain k v where p: "p = (k, v)" by (cases p)
  from Cons.prems have new: "KStr k \<notin> fst ` set acc"
    by (auto simp: p)
  have step: "setitem acc (KStr k) v = acc @ [(KStr k, v)]"
    by (rule setitem_new [OF new])
  have disj: "fst ` set (acc @ [(KStr k, v)]) \<inter> KStr ` fst ` set obj = {}"
    using Cons.prems by (auto simp: p)
  have dist: "distinct (map fst obj)"
    using Cons.prems by simp
  show ?case
    using Cons.IH [OF dist disj] by (simp add: p step)
qed

lemma json_loads_distinct:
  "distinct (map fst obj) \<Longrightarrow> json_loads obj = map (\<lambda>(k, v). (KStr k, v)) obj"
  using json_loads_acc [of obj "[]"] by (simp add: json_loads_def)

section \<open>Decimal strings\<close>

lemma digit_char_inj: "m < 10 \<Longrightarrow> n < 10 \<Longrightarrow> digit_char m = digit_char n \<Longrightarrow> m = n"
proof -
  assume a: "m < 10" "n < 10" "digit_char m = digit_char n"
  have d: "distinct ''0123456789''" by simp
  have l: "length ''0123456789'' = 10" by simp
  from a show ?thesis
    unfolding digit_char_def using nth_eq_iff_index_eq [OF d, of m n] l by simp
qed

lemma digit_char_not_minus: "n < 10 \<Longrightarrow> digit_char n \<noteq> CHR ''-''"
proof -
  assume "n < 10"
  then have "n \<in> {0, 1, 2, 3, 4, 5, 6, 7, 8, 9}" by auto
  then show ?thesis by (auto simp: digit_char_def)
qed

lemma str_nat_nonempty: "str_nat n \<noteq> []"
  by (subst str_nat.simps) simp

lemma str_nat_inj: "str_nat m = str_nat n \<Longrightarrow> m = n"
proof (induction m arbitrary: n rule: str_nat.induct)
  case (1 m)
  show ?case
  proof (cases "m < 10")
    case True
    show ?thesis
    proof (cases "n < 10")
      case n: True
      from "1.prems" True n have "digit_char m = digit_char n"
        by (simp add: str_nat.simps [of m] str_nat.simps [of n])
      then show ?thesis by (rule digit_char_inj [OF True n])
    next
      case False
      from "1.prems" True False have "str_nat (n div 10) = []"
        by (simp add: str_nat.simps [of m] str_nat.simps [of n])
      then show ?thesis by (simp add: str_nat_nonempty)
    qed
  next
    case False
    show ?thesis
    proof (cases "n < 10")
      case True
      from "1.prems" True False have "str_nat (m div 10) = []"
        by (simp add: str_nat.simps [of m] str_nat.simps [of n])
      then show ?thesis by (simp add: str_nat_nonempty)
    next
      case n: False
      from "1.prems" False n have
        hd: "str_nat (m div 10) = str_nat (n div 10)" and
        tl: "digit_char (m mod 10) = digit_char (n mod 10)"
        by (simp_all add: str_nat.simps [of m] str_nat.simps [of n])
      from "1.IH" [OF False hd] have q: "m div 10 = n div 10" .
      from tl have r: "m mod 10 = n mod 10"
        by (rule digit_char_inj [rotated 2]) simp_all
      from q r show ?thesis
        by (metis div_mult_mod_eq)
    qed
  qed
qed

lemma str_nat_no_minus: "hd (str_nat n) \<noteq> CHR ''-''"
proof (induction n rule: str_nat.induct)
  case (1 n)
  show ?case
  proof (cases "n < 10")
    case True
    then show ?thesis by (simp add: str_nat.simps [of n] digit_char_not_minus)
  next
    case False
    with "1.IH" show ?thesis
      by (simp add: str_nat.simps [of n] str_nat_nonempty)
  qed
qed

lemma py_str_inj: "py_str i = py_str j \<Longrightarrow> i = j"
proof -
  assume eq: "py_str i = py_str j"
  have neg: "CHR ''-'' # xs \<noteq> str_nat n" for xs n
    using str_nat_no_minus [of n] by (cases "str_nat n") (auto simp: str_nat_nonempty)
  show ?thesis
  proof (cases "i < 0")
    case True
    show ?thesis
    proof (cases "j < 0")
      case j: True
      from eq True j have "str_nat (nat (- i)) = str_nat (nat (- j))"
        by (simp add: py_str_def)
      then have "nat (- i) = nat (- j)" by (rule str_nat_inj)
      with True j show ?thesis by simp
    next
      case False
      with eq True neg show ?thesis by (simp add: py_str_def)
    qed
  next
    case False
    show ?thesis
    proof (cases "j < 0")
      case True
      with eq False neg [of "str_nat (nat (- j))" "nat i"] show ?thesis
        by (simp add: py_str_def)
    next
      case j: False
      from eq False j have "str_nat (nat i) = str_nat (nat j)"
        by (simp add: py_str_def)
      then have "nat i = nat j" by (rule str_nat_inj)
      with False j show ?thesis by simp
    qed
  qed
qed

section \<open>Hexadecimal decoding\<close>

lemma hexval_not_space: "hexval c \<noteq> None \<Longrightarrow> \<not> isspace c"
  by (auto simp: hexval_def isspace_def Let_def split: if_splits)

lemma fromhex_hex_append:
  "\<forall>c \<in> set xs. hexval c \<noteq> None \<Longrightarrow> even (length xs) \<Longrightarrow>
   \<exists>bs. fromhex xs = Inr bs \<and> 2 * length bs = length xs \<and>
        (\<forall>ys. fromhex (xs @ ys) = (case fromhex ys of Inl e \<Rightarrow> Inl e | Inr cs \<Rightarrow> Inr (bs @ cs)))"
proof (induction xs rule: fromhex.induct)
  case 1
  then show ?case by (auto split: sum.splits)
next
  case (2 c)
  then show ?case by simp
next
  case (3 c d cs)
  then show ?case
    by (auto simp: hexval_not_space split: sum.splits option.splits)
qed

lemma fromhex_00: "fromhex ''00'' = Inr [0]"
  by (simp add: hexval_def isspace_def)

lemma address_guard_bytes:
  assumes "is_address a"
  shows "\<exists>addr. fromhex (drop 2 a) = Inr addr \<and> length addr = 20
           \<and> fromhex (drop 2 a @ ''00'') = Inr (addr @ [0])"
proof -
  from assms have hex: "\<forall>c \<in> set (drop 2 a). hexval c \<noteq> None"
    and len: "length (drop 2 a) = 40"
    by (auto simp: is_address_def)
  have ev: "even (length (drop 2 a))"
    by (simp only: len) simp
  from fromhex_hex_append [OF hex ev] len obtain addr where
    a: "fromhex (drop 2 a) = Inr addr" "2 * length addr = 40"
    and app: "\<And>ys. fromhex (drop 2 a @ ys) =
                (case fromhex ys of Inl e \<Rightarrow> Inl e | Inr cs \<Rightarrow> Inr (addr @ cs))"
    by auto
  have g: "fromhex (drop 2 a @ ''00'') = Inr (addr @ [0])"
    using app [of "''00''"] by (simp only: fromhex_00 sum.case)
  from a g show ?thesis by auto
qed

section \<open>What a run of \<open>set_peer\<close> touches\<close>

lemma calls_connect: "calls (connect w) = calls w @ [SetNetworkEnv, AddAccount]"
  by (simp add: connect_def)

lemma set_peer_files:
  "yaml_file (snd (set_peer e w)) = yaml_file w
   \<and> json_file (snd (set_peer e w)) = json_file w
   \<and> abi_file (snd (set_peer e w)) = abi_file w"
  by (simp add: set_peer_def connect_def Let_def split: option.splits sum.splits)

lemma read_deployments_connect: "read_deployments (connect w) = read_deployments w"
  by (simp add: read_deployments_def connect_def)

lemma set_peer_calls:
  "calls (snd (set_peer e w)) =
     calls w @ [SetNetworkEnv, AddAccount] @
     (case read_deployments w of
        None \<Rightarrow> []
      | Some d \<Rightarrow>
        (case (getitem d (KInt (chain_id e)), getitem d (KInt 11155111)) of
           (Inr a, Inr h) \<Rightarrow> [ContractSetPeer a 4294967294 h]
         | _ \<Rightarrow> []))"
  by (simp add: set_peer_def read_deployments_connect Let_def split: option.splits sum.splits)
    (simp add: connect_def)

section \<open>What a run of \<open>deploy\<close> touches\<close>

lemma deploy_completes:
  assumes "salt_view (eoa e) (urandom e 11) = Inr salt"
    and "getitem lz_endpoints (KInt (chain_id e)) = Inr endpoint"
    and "deployCreate3 e salt (bytecode e @ abi_encode e endpoint 500000) = Some address"
    and "read_deployments w = Some d"
  shows "deploy e w =
           (if chain_id e \<noteq> 11155111
            then set_peer e (deployed_world e w salt endpoint address d)
            else (Inr (), deployed_world e w salt endpoint address d))"
proof -
  have r: "read_deployments
             (connect w\<lparr>calls := calls (connect w) @ [DeployCreate3 salt (bytecode e @ abi_encode e endpoint 500000)],
                        abi_file := Some (contract_abi e address)\<rparr>) = Some d"
    using assms(4) by (simp add: read_deployments_def connect_def)
  have w: "connect w\<lparr>calls := calls (connect w) @ [DeployCreate3 salt (bytecode e @ abi_encode e endpoint 500000)],
                    abi_file := Some (contract_abi e address),
                    yaml_file := Some (safe_dump (setitem d (KInt (chain_id e)) address))\<rparr>
           = deployed_world e w salt endpoint address d"
    by (simp add: deployed_world_def connect_def)
  show ?thesis
    unfolding deploy_def Let_def
    by (simp only: assms(1-3) sum.case option.case r w)
qed

lemma deploy_json_file: "json_file (snd (deploy e w)) = json_file w"
  by (simp add: deploy_def Let_def connect_def set_peer_files
           split: sum.splits option.splits)


lemma getitem_sorted_items: "getitem (sorted_items d) k = getitem d k"
  by (simp add: getitem_def map_of_sorted_items)

lemma deploy_yaml_file:
  "yaml_file (snd (deploy e w)) = yaml_file w
   \<or> (\<exists>d address. read_deployments w = Some d
         \<and> yaml_file (snd (deploy e w))
             = Some (safe_dump (setitem d (KInt (chain_id e)) address)))"
  by (auto simp: deploy_def Let_def connect_def set_peer_files read_deployments_def
           split: sum.splits option.splits)

lemma deploy_stage_completes:
  assumes "deploy_stage e w salt endpoint address d"
  shows "deploy e w =
           (if chain_id e \<noteq> 11155111
            then set_peer e (deployed_world e w salt endpoint address d)
            else (Inr (), deployed_world e w salt endpoint address d))"
  using assms unfolding deploy_stage_def by (intro deploy_completes) simp_all

lemma deploy_stage_fails:
  assumes "\<nexists>salt endpoint address d. deploy_stage e w salt endpoint address d"
  shows "(\<exists>err. fst (deploy e w) = Inl err)
         \<and> count_list (calls (snd (deploy e w))) SetNetworkEnv
             = count_list (calls w) SetNetworkEnv + 1
         \<and> filter is_peer_call (calls (snd (deploy e w))) = filter is_peer_call (calls w)
         \<and> yaml_file (snd (deploy e w)) = yaml_file w"
proof -
  have keep: "read_deployments (w'\<lparr>calls := cs, abi_file := a\<rparr>) = read_deployments w'"
    for w' :: world and cs a
    by (simp add: read_deployments_def)
  from assms show ?thesis
    unfolding deploy_stage_def deploy_def Let_def
    by (auto simp: connect_def keep read_deployments_def split: sum.splits option.splits)
qed

lemma deployed_world_yaml:
  "yaml_file (deployed_world e w salt endpoint address d)
     = Some (safe_dump (setitem d (KInt (chain_id e)) address))"
  by (simp add: deployed_world_def)

lemma deployed_world_calls:
  "calls (deployed_world e w salt endpoint address d)
     = calls w @ [SetNetworkEnv, AddAccount,
                  DeployCreate3 salt (bytecode e @ abi_encode e endpoint 500000)]"
  by (simp add: deployed_world_def)

lemma sample_stage:
  assumes "c = 421614 \<or> c = 11155111" and "read_deployments w = Some d"
  shows "deploy_stage (sample_env c) w sample_salt sample_endpoint sample_address d"
  using assms
  by (auto simp: deploy_stage_def sample_env_def sample_salt_def sample_endpoint_def
        sample_address_def salt_view_def hexval_def isspace_def getitem_def lz_endpoints_def
        eval_nat_numeral)

lemma failing_stage:
  "\<nexists>salt endpoint address d. deploy_stage failing_env w salt endpoint address d"
  by (simp add: deploy_stage_def failing_env_def sample_env_def)

lemma read_fresh_world: "read_deployments fresh_world = Some []"
  by (simp add: read_deployments_def fresh_world_def)

lemma read_peered_world: "read_deployments peered_world = Some [(KInt 11155111, home_address)]"
  by (simp add: read_deployments_def peered_world_def fresh_world_def)

lemma sample_deploy_calls:
  "calls (snd (deploy (sample_env 421614) peered_world)) =
     [SetNetworkEnv, AddAccount,
      DeployCreate3 [186, 94, 208, 153, 99, 61, 59, 49, 62, 77, 95, 123, 220, 19, 5, 211, 194,
                     139, 165, 237, 0, 7, 7, 7, 7, 7, 7, 7, 7, 7, 7, 7] [96, 128],
      SetNetworkEnv, AddAccount,
      ContractSetPeer ''0x00000000000000000000000000000000000000A1'' 4294967294 home_address]"
  by (simp add: deploy_def Let_def sample_env_def peered_world_def fresh_world_def connect_def
        salt_view_def hexval_def isspace_def getitem_def lz_endpoints_def
        read_deployments_def set_peer_def safe_dump_def sorted_items_def eval_nat_numeral)

section \<open>The JSON store\<close>

lemma load_update_config:
  "load_config (update_config m w) = Some (json_loads (json_dump m))"
  by (simp add: load_config_def update_config_def)

lemma json_round_trip_keys:
  assumes "distinct (map fst m)" and "inj_on json_key (fst ` set m)"
  shows "json_loads (json_dump m) = map (\<lambda>(k, v). (KStr (json_key k), v)) m"
proof -
  have f: "map fst (json_dump m) = map json_key (map fst m)"
    by (simp add: json_dump_def case_prod_unfold)
  have "distinct (map json_key (map fst m))"
    using assms by (subst distinct_map) simp
  then have "distinct (map fst (json_dump m))"
    by (simp only: f)
  then have "json_loads (json_dump m) = map (\<lambda>(k, v). (KStr k, v)) (json_dump m)"
    by (rule json_loads_distinct)
  then show ?thesis
    by (simp add: json_dump_def case_prod_unfold)
qed

section \<open>The configuration store\<close>

text \<open>
  C1 as worded: \<open>update_config m\<close> followed by \<open>load_config\<close> would return a mapping
  equal to \<open>m\<close> for every mapping of chain IDs to addresses. For the chain ID 421614 the
  mapping that comes back has the key \<open>"421614"\<close>, a string, and Python does not hold it
  equal to the one that went in.
\<close>

theorem config_round_trip_counterexample:
  "load_config (update_config [(KInt 421614, home_address)] fresh_world)
     = Some [(KStr ''421614'', home_address)]
   \<and> \<not> dict_eq [(KStr ''421614'', home_address)] [(KInt 421614, home_address)]"
proof
  show "load_config (update_config [(KInt 421614, home_address)] fresh_world)
          = Some [(KStr ''421614'', home_address)]"
    by (simp add: load_update_config json_dump_def json_loads_def py_str_def
          str_nat.simps digit_char_def)
  have "map_of [(KStr ''421614'', home_address)] (KInt 421614)
          \<noteq> map_of [(KInt 421614, home_address)] (KInt 421614)"
    by simp
  then show "\<not> dict_eq [(KStr ''421614'', home_address)] [(KInt 421614, home_address)]"
    unfolding dict_eq_def by metis
qed

text \<open>
  C1, amended. For a dict \<open>m\<close> (keys pairwise distinct), \<open>load_config\<close> after
  \<open>update_config m\<close> returns \<open>m\<close> itself when the keys of \<open>m\<close> are strings (the empty
  mapping included). When the keys are integer chain IDs it returns the same values under
  the decimal strings of those IDs, which is equal to \<open>m\<close> only for the empty mapping.
\<close>

theorem config_round_trip:
  assumes "distinct (map fst m)"
  shows "((\<forall>k \<in> fst ` set m. \<exists>s. k = KStr s) \<longrightarrow>
            load_config (update_config m w) = Some m)
         \<and> ((\<forall>k \<in> fst ` set m. \<exists>i. k = KInt i) \<longrightarrow>
            load_config (update_config m w) = Some (map (\<lambda>(k, v). (KStr (json_key k), v)) m)
            \<and> (dict_eq (map (\<lambda>(k, v). (KStr (json_key k), v)) m) m \<longleftrightarrow> m = []))"
proof (intro conjI impI)
  assume s: "\<forall>k \<in> fst ` set m. \<exists>s. k = KStr s"
  have inj: "inj_on json_key (fst ` set m)"
  proof (rule inj_onI)
    fix a b
    assume a: "a \<in> fst ` set m" and b: "b \<in> fst ` set m" and e: "json_key a = json_key b"
    from s a obtain x where "a = KStr x" by blast
    moreover from s b obtain y where "b = KStr y" by blast
    ultimately show "a = b" using e by simp
  qed
  have "(case p of (k, v) \<Rightarrow> (KStr (json_key k), v)) = id p" if "p \<in> set m" for p
  proof -
    from s that obtain x where "fst p = KStr x" by auto
    then show ?thesis by (cases p) simp
  qed
  then have "map (\<lambda>(k, v). (KStr (json_key k), v)) m = map id m"
    by (intro map_cong refl)
  then show "load_config (update_config m w) = Some m"
    by (simp add: load_update_config json_round_trip_keys [OF assms inj])
next
  assume i: "\<forall>k \<in> fst ` set m. \<exists>i. k = KInt i"
  have inj: "inj_on json_key (fst ` set m)"
  proof (rule inj_onI)
    fix a b
    assume a: "a \<in> fst ` set m" and b: "b \<in> fst ` set m" and e: "json_key a = json_key b"
    from i a obtain x where "a = KInt x" by blast
    moreover from i b obtain y where "b = KInt y" by blast
    ultimately show "a = b" using e by (simp add: py_str_inj)
  qed
  show "load_config (update_config m w) = Some (map (\<lambda>(k, v). (KStr (json_key k), v)) m)"
    by (simp add: load_update_config json_round_trip_keys [OF assms inj])
  show "dict_eq (map (\<lambda>(k, v). (KStr (json_key k), v)) m) m \<longleftrightarrow> m = []"
  proof
    assume eq: "dict_eq (map (\<lambda>(k, v). (KStr (json_key k), v)) m) m"
    show "m = []"
    proof (cases m)
      case Nil
      then show ?thesis .
    next
      case (Cons p ps)
      from i Cons obtain n v where p: "p = (KInt n, v)"
        by (cases p) auto
      have "map_of m (KInt n) = Some v"
        by (simp add: Cons p)
      moreover have "map_of (map (\<lambda>(k, v). (KStr (json_key k), v)) m) (KInt n) = None"
        by (auto simp: map_of_eq_None_iff)
      ultimately show ?thesis
        using eq unfolding dict_eq_def by simp
    qed
  next
    assume "m = []"
    then show "dict_eq (map (\<lambda>(k, v). (KStr (json_key k), v)) m) m"
      by (simp add: dict_eq_def)
  qed
qed

theorem config_round_trip_witness:
  "load_config (update_config [(KStr ''421614'', home_address)] fresh_world)
     = Some [(KStr ''421614'', home_address)]
   \<and> load_config (update_config [(KInt 11155111, home_address)] fresh_world)
     = Some [(KStr ''11155111'', home_address)]
   \<and> load_config (update_config [] fresh_world) = Some []"
proof -
  have a: "distinct (map fst [(KStr ''421614'', home_address)])" by simp
  have b: "distinct (map fst [(KInt 11155111, home_address)])" by simp
  have c: "distinct (map fst ([] :: string py_dict))" by simp
  from config_round_trip [OF a, of fresh_world] config_round_trip [OF b, of fresh_world]
    config_round_trip [OF c, of fresh_world]
  show ?thesis
    by (simp add: py_str_def str_nat.simps digit_char_def)
qed

text \<open>
  C2 as worded: on a first run, with no JSON file, \<open>load_config\<close> would return an empty
  mapping. It returns \<open>None\<close>.
\<close>

theorem load_config_first_run_counterexample:
  "json_file fresh_world = None \<and> load_config fresh_world \<noteq> Some []"
  by (simp add: load_config_def fresh_world_def)

text \<open>
  C2, amended. With no JSON file \<open>load_config\<close> does not fail and returns \<open>None\<close>, no
  mapping at all; the read of the deployments file inside \<open>deploy\<close> and \<open>set_peer\<close>
  yields the empty mapping when that file does not exist.
\<close>

theorem first_run_loads:
  "(json_file w = None \<longrightarrow> load_config w = None)
   \<and> (yaml_file w = None \<longrightarrow> read_deployments w = Some [])"
  by (simp add: load_config_def read_deployments_def)

theorem first_run_loads_witness:
  "json_file fresh_world = None \<and> load_config fresh_world = None
   \<and> yaml_file fresh_world = None \<and> read_deployments fresh_world = Some []"
  using first_run_loads [of fresh_world]
  by (simp add: fresh_world_def)

text \<open>
  C3 as worded: every save would leave both files written. After \<open>update_config\<close> on a
  first run the deployments file of \<open>deploy.py\<close> still does not exist, and after a
  \<open>deploy\<close> on a first run the JSON file still does not exist.
\<close>

theorem save_both_files_counterexample:
  "yaml_file (update_config [(KInt 421614, home_address)] fresh_world) = None
   \<and> fst (deploy (sample_env 11155111) fresh_world) = Inr ()
   \<and> json_file (snd (deploy (sample_env 11155111) fresh_world)) = None"
proof (intro conjI)
  show "yaml_file (update_config [(KInt 421614, home_address)] fresh_world) = None"
    by (simp add: update_config_def fresh_world_def)
  show "fst (deploy (sample_env 11155111) fresh_world) = Inr ()"
    by (simp add: deploy_def Let_def sample_env_def fresh_world_def connect_def
          salt_view_def hexval_def isspace_def getitem_def lz_endpoints_def
          read_deployments_def)
  show "json_file (snd (deploy (sample_env 11155111) fresh_world)) = None"
    by (simp add: deploy_json_file) (simp add: fresh_world_def)
qed

text \<open>
  C3, amended. \<open>update_config m\<close> writes the pairs of \<open>m\<close> to the JSON file and leaves
  the deployments file of \<open>deploy.py\<close> as it was. A \<open>deploy\<close> whose Deploy stage
  completes writes to that deployments file the mapping it read with the entry of its
  chain set to the address the factory returned, as \<open>yaml.safe_dump\<close> writes it; a
  \<open>deploy\<close> that ends normally is such a run.
\<close>

theorem save_writes_one_file:
  "json_file (update_config m w) = Some (json_dump m)
   \<and> yaml_file (update_config m w) = yaml_file w
   \<and> (deploy_stage e w salt endpoint address d \<longrightarrow>
        yaml_file (snd (deploy e w))
          = Some (safe_dump (setitem d (KInt (chain_id e)) address))
        \<and> map_option map_of (read_deployments (snd (deploy e w)))
              = Some ((map_of d)(KInt (chain_id e) \<mapsto> address)))
   \<and> (fst (deploy e w) = Inr () \<longrightarrow>
        (\<exists>salt endpoint address d. deploy_stage e w salt endpoint address d))"
proof (intro conjI impI)
  show "json_file (update_config m w) = Some (json_dump m)"
    by (simp add: update_config_def)
  show "yaml_file (update_config m w) = yaml_file w"
    by (simp add: update_config_def)
next
  assume st: "deploy_stage e w salt endpoint address d"
  show y: "yaml_file (snd (deploy e w))
          = Some (safe_dump (setitem d (KInt (chain_id e)) address))"
    by (simp add: deploy_stage_completes [OF st] set_peer_files deployed_world_yaml)
  show "map_option map_of (read_deployments (snd (deploy e w)))
          = Some ((map_of d)(KInt (chain_id e) \<mapsto> address))"
    by (simp add: read_deployments_def y safe_dump_def map_of_sorted_items map_of_setitem)
next
  assume ok: "fst (deploy e w) = Inr ()"
  show "\<exists>salt endpoint address d. deploy_stage e w salt endpoint address d"
  proof (rule ccontr)
    assume "\<nexists>salt endpoint address d. deploy_stage e w salt endpoint address d"
    from deploy_stage_fails [OF this] ok show False by auto
  qed
qed

theorem save_writes_one_file_witness:
  "json_file (update_config [(KInt 421614, home_address)] fresh_world)
        = Some [(''421614'', home_address)]
   \<and> yaml_file (update_config [(KInt 421614, home_address)] fresh_world) = None
   \<and> deploy_stage (sample_env 421614) peered_world sample_salt sample_endpoint sample_address
         [(KInt 11155111, home_address)]
   \<and> yaml_file (snd (deploy (sample_env 421614) peered_world))
        = Some (YMap [(KInt 421614, sample_address), (KInt 11155111, home_address)])
   \<and> fst (deploy (sample_env 11155111) fresh_world) = Inr ()
   \<and> (\<exists>salt endpoint address d.
         deploy_stage (sample_env 11155111) fresh_world salt endpoint address d)"
proof -
  have st: "deploy_stage (sample_env 421614) peered_world sample_salt sample_endpoint
              sample_address [(KInt 11155111, home_address)]"
    by (rule sample_stage [OF _ read_peered_world]) simp
  have st': "deploy_stage (sample_env 11155111) fresh_world sample_salt sample_endpoint
               sample_address []"
    by (rule sample_stage [OF _ read_fresh_world]) simp
  have ok: "fst (deploy (sample_env 11155111) fresh_world) = Inr ()"
    by (simp add: deploy_stage_completes [OF st']) (simp add: sample_env_def)
  have c: "chain_id (sample_env 421614) = 421614"
    by (simp add: sample_env_def)
  from save_writes_one_file
         [of "[(KInt 421614, home_address)]" peered_world "sample_env 421614"
             sample_salt sample_endpoint sample_address "[(KInt 11155111, home_address)]"]
       save_writes_one_file
         [of "[(KInt 421614, home_address)]" fresh_world "sample_env 11155111"]
       st ok
  show ?thesis
    by (simp add: json_dump_def py_str_def str_nat.simps digit_char_def fresh_world_def c
          safe_dump_def sorted_items_def)
qed

section \<open>Peer registration and the registry\<close>

text \<open>
  C4 as worded: the endpoint identifier that the peer-registration call carries for the
  home chain would be the registry's \<open>LZ_EID\<close> entry of the home chain. The registry
  holds 1; the call that \<open>deploy\<close> sends on chain 421614 carries 4294967294.
\<close>

theorem peer_eid_counterexample:
  "getitem LZ_EID (KInt 11155111) = Inr 1
   \<and> filter is_peer_call (calls (snd (deploy (sample_env 421614) peered_world)))
       = [ContractSetPeer ''0x00000000000000000000000000000000000000A1'' 4294967294
            home_address]
   \<and> getitem LZ_EID (KInt 11155111) \<noteq> Inr 4294967294"
  by (simp add: getitem_def LZ_EID_def sample_deploy_calls)

text \<open>
  C4, amended. For every supported chain \<open>LZ_EID[chain_id]\<close> returns the entry of the
  table, which is 1; every peer-registration call that \<open>set_peer\<close> or \<open>deploy\<close> sends
  carries the endpoint identifier 4294967294, a literal of \<open>deploy.py\<close> that is not read
  from the registry.
\<close>

theorem peer_eid_fixed:
  "(supported_chain c \<longrightarrow> getitem LZ_EID (KInt c) = Inr 1)
   \<and> (ContractSetPeer a n h \<in> set (calls (snd (set_peer e w))) \<longrightarrow>
        ContractSetPeer a n h \<in> set (calls w) \<or> n = 4294967294)
   \<and> (ContractSetPeer a n h \<in> set (calls (snd (deploy e w))) \<longrightarrow>
        ContractSetPeer a n h \<in> set (calls w) \<or> n = 4294967294)"
proof (intro conjI impI)
  assume "supported_chain c"
  then show "getitem LZ_EID (KInt c) = Inr 1"
    by (auto simp: supported_chain_def getitem_def LZ_EID_def)
next
  assume "ContractSetPeer a n h \<in> set (calls (snd (set_peer e w)))"
  then show "ContractSetPeer a n h \<in> set (calls w) \<or> n = 4294967294"
    by (auto simp: set_peer_calls split: option.splits sum.splits)
next
  assume "ContractSetPeer a n h \<in> set (calls (snd (deploy e w)))"
  then show "ContractSetPeer a n h \<in> set (calls w) \<or> n = 4294967294"
    by (auto simp: deploy_def Let_def connect_def set_peer_calls
             split: sum.splits option.splits prod.splits if_splits)
qed

theorem peer_eid_fixed_witness:
  "supported_chain 11155111 \<and> getitem LZ_EID (KInt 11155111) = Inr 1
   \<and> ContractSetPeer home_address 4294967294 home_address
        \<in> set (calls (snd (set_peer (sample_env 11155111) peered_world)))
   \<and> ContractSetPeer ''0x00000000000000000000000000000000000000A1'' 4294967294 home_address
        \<in> set (calls (snd (deploy (sample_env 421614) peered_world)))
   \<and> calls peered_world = []"
proof -
  have s: "supported_chain 11155111"
    by (simp add: supported_chain_def)
  have a: "ContractSetPeer home_address 4294967294 home_address
             \<in> set (calls (snd (set_peer (sample_env 11155111) peered_world)))"
    by (simp add: set_peer_calls peered_world_def fresh_world_def read_deployments_def
          sample_env_def getitem_def)
  have b: "ContractSetPeer ''0x00000000000000000000000000000000000000A1'' 4294967294
             home_address \<in> set (calls (snd (deploy (sample_env 421614) peered_world)))"
    by (simp add: sample_deploy_calls)
  have c: "calls peered_world = []"
    by (simp add: peered_world_def fresh_world_def)
  from peer_eid_fixed [of 11155111 home_address 4294967294 home_address
                          "sample_env 11155111" peered_world]
       peer_eid_fixed [of 11155111 "''0x00000000000000000000000000000000000000A1''"
                          4294967294 home_address "sample_env 421614" peered_world]
       s a b c
  show ?thesis by simp
qed

text \<open>
  C5 as worded: on every run on a configured chain other than 11155111 \<open>deploy\<close> would
  execute \<open>set_peer\<close>. On chain 421614, when the factory call fails, the run ends there
  with the one connection of \<open>deploy\<close> itself: \<open>set_peer\<close> is not executed.
\<close>

theorem register_peer_gate_counterexample:
  "chain_id failing_env = 421614 \<and> supported_chain (chain_id failing_env)
   \<and> fst (deploy failing_env fresh_world) = Inl RpcError
   \<and> calls (snd (deploy failing_env fresh_world))
       = [SetNetworkEnv, AddAccount, DeployCreate3 sample_salt [96, 128]]"
  by (simp add: failing_env_def sample_env_def supported_chain_def deploy_def Let_def
        fresh_world_def connect_def salt_view_def hexval_def isspace_def getitem_def
        lz_endpoints_def sample_salt_def eval_nat_numeral)

text \<open>
  C5, amended. \<open>set_peer\<close> opens by connecting again, so a run of \<open>deploy\<close> in which
  it is executed shows two \<open>SetNetworkEnv\<close> calls and a run in which it is not executed
  shows one. On the home chain 11155111, whatever else happens, \<open>deploy\<close> connects once
  and sends no peer-registration call: \<open>set_peer\<close> is never executed. On any other chain
  \<open>set_peer\<close> is executed exactly when the Deploy stage completes: then the run of
  \<open>deploy\<close> ends as the run of \<open>set_peer\<close> on the world the Deploy stage has left;
  otherwise the run ends in an error with one connection and no peer-registration call.
  On a configured chain, with a well-formed deployer address, the salt and the endpoint
  are always there, so that the Deploy stage completes whenever the factory returns an
  address and the deployments read is a mapping.
\<close>

theorem register_peer_gate:
  "(chain_id e = 11155111 \<longrightarrow>
      filter is_peer_call (calls (snd (deploy e w))) = filter is_peer_call (calls w)
      \<and> count_list (calls (snd (deploy e w))) SetNetworkEnv
          = count_list (calls w) SetNetworkEnv + 1)
   \<and> (chain_id e \<noteq> 11155111 \<and> deploy_stage e w salt endpoint address d \<longrightarrow>
      deploy e w = set_peer e (deployed_world e w salt endpoint address d)
      \<and> count_list (calls (snd (deploy e w))) SetNetworkEnv
          = count_list (calls w) SetNetworkEnv + 2)
   \<and> (chain_id e \<noteq> 11155111
        \<and> (\<nexists>salt endpoint address d. deploy_stage e w salt endpoint address d) \<longrightarrow>
      (\<exists>err. fst (deploy e w) = Inl err)
      \<and> filter is_peer_call (calls (snd (deploy e w))) = filter is_peer_call (calls w)
      \<and> count_list (calls (snd (deploy e w))) SetNetworkEnv
          = count_list (calls w) SetNetworkEnv + 1)
   \<and> (supported_chain (chain_id e) \<and> is_address (eoa e) \<longrightarrow>
      (\<exists>salt endpoint.
          \<forall>address d.
            deploy_stage e w salt endpoint address d \<longleftrightarrow>
              deployCreate3 e salt (bytecode e @ abi_encode e endpoint 500000) = Some address
              \<and> read_deployments w = Some d))"
proof (intro conjI impI)
  assume home: "chain_id e = 11155111"
  show "filter is_peer_call (calls (snd (deploy e w))) = filter is_peer_call (calls w)"
    using home
    by (simp add: deploy_def Let_def connect_def split: sum.splits option.splits)
  show "count_list (calls (snd (deploy e w))) SetNetworkEnv
          = count_list (calls w) SetNetworkEnv + 1"
    using home
    by (simp add: deploy_def Let_def connect_def split: sum.splits option.splits)
next
  assume h: "chain_id e \<noteq> 11155111 \<and> deploy_stage e w salt endpoint address d"
  then have st: "deploy_stage e w salt endpoint address d"
    by simp
  from deploy_stage_completes [OF st] h
  show run: "deploy e w = set_peer e (deployed_world e w salt endpoint address d)"
    by simp
  show "count_list (calls (snd (deploy e w))) SetNetworkEnv
          = count_list (calls w) SetNetworkEnv + 2"
    by (simp add: run set_peer_calls deployed_world_calls
          split: option.splits sum.splits)
next
  assume h: "chain_id e \<noteq> 11155111
        \<and> (\<nexists>salt endpoint address d. deploy_stage e w salt endpoint address d)"
  then have no: "\<nexists>salt endpoint address d. deploy_stage e w salt endpoint address d"
    by simp
  from deploy_stage_fails [OF no]
  show "\<exists>err. fst (deploy e w) = Inl err"
    and "filter is_peer_call (calls (snd (deploy e w))) = filter is_peer_call (calls w)"
    and "count_list (calls (snd (deploy e w))) SetNetworkEnv
          = count_list (calls w) SetNetworkEnv + 1"
    by simp_all
next
  assume h: "supported_chain (chain_id e) \<and> is_address (eoa e)"
  from h address_guard_bytes [of "eoa e"] obtain salt where
    salt: "salt_view (eoa e) (urandom e 11) = Inr salt"
    by (auto simp: salt_view_def)
  from h obtain endpoint where
    ep: "getitem lz_endpoints (KInt (chain_id e)) = Inr endpoint"
    by (auto simp: supported_chain_def getitem_def lz_endpoints_def)
  have "\<forall>address d.
          deploy_stage e w salt endpoint address d \<longleftrightarrow>
            deployCreate3 e salt (bytecode e @ abi_encode e endpoint 500000) = Some address
            \<and> read_deployments w = Some d"
    by (simp add: deploy_stage_def salt ep)
  then show "\<exists>salt endpoint.
          \<forall>address d.
            deploy_stage e w salt endpoint address d \<longleftrightarrow>
              deployCreate3 e salt (bytecode e @ abi_encode e endpoint 500000) = Some address
              \<and> read_deployments w = Some d"
    by blast
qed

theorem register_peer_gate_witness:
  "chain_id (sample_env 11155111) = 11155111
   \<and> count_list (calls (snd (deploy (sample_env 11155111) fresh_world))) SetNetworkEnv = 1
   \<and> filter is_peer_call (calls (snd (deploy (sample_env 11155111) fresh_world))) = []
   \<and> chain_id (sample_env 421614) \<noteq> 11155111
   \<and> deploy_stage (sample_env 421614) fresh_world sample_salt sample_endpoint
         sample_address []
   \<and> count_list (calls (snd (deploy (sample_env 421614) fresh_world))) SetNetworkEnv = 2
   \<and> chain_id failing_env \<noteq> 11155111
   \<and> (\<nexists>salt endpoint address d. deploy_stage failing_env fresh_world salt endpoint address d)
   \<and> count_list (calls (snd (deploy failing_env fresh_world))) SetNetworkEnv = 1
   \<and> supported_chain (chain_id (sample_env 421614)) \<and> is_address (eoa (sample_env 421614))"
proof -
  have c1: "chain_id (sample_env 11155111) = 11155111"
    and c2: "chain_id (sample_env 421614) \<noteq> 11155111"
    and c3: "chain_id failing_env \<noteq> 11155111"
    by (simp_all add: sample_env_def failing_env_def)
  have st: "deploy_stage (sample_env 421614) fresh_world sample_salt sample_endpoint
              sample_address []"
    by (rule sample_stage [OF _ read_fresh_world]) simp
  have sup: "supported_chain (chain_id (sample_env 421614))"
    and adr: "is_address (eoa (sample_env 421614))"
    by (simp_all add: sample_env_def supported_chain_def is_address_def hexval_def)
  have cs: "calls fresh_world = []"
    by (simp add: fresh_world_def)
  have g1: "count_list (calls (snd (deploy (sample_env 11155111) fresh_world))) SetNetworkEnv
              = 1
            \<and> filter is_peer_call (calls (snd (deploy (sample_env 11155111) fresh_world)))
              = []"
    using register_peer_gate [of "sample_env 11155111" fresh_world] c1
    by (simp add: cs)
  from register_peer_gate [of "sample_env 421614" fresh_world sample_salt sample_endpoint
                              sample_address "[]", THEN conjunct2, THEN conjunct1] c2 st
  have "count_list (calls (snd (deploy (sample_env 421614) fresh_world))) SetNetworkEnv
          = count_list (calls fresh_world) SetNetworkEnv + 2"
    by blast
  then have g2: "count_list (calls (snd (deploy (sample_env 421614) fresh_world)))
                   SetNetworkEnv = 2"
    by (simp add: cs)
  from register_peer_gate [of failing_env fresh_world, THEN conjunct2, THEN conjunct2,
                           THEN conjunct1] c3 failing_stage [of fresh_world]
  have "count_list (calls (snd (deploy failing_env fresh_world))) SetNetworkEnv
          = count_list (calls fresh_world) SetNetworkEnv + 1"
    by blast
  then have g3: "count_list (calls (snd (deploy failing_env fresh_world))) SetNetworkEnv = 1"
    by (simp add: cs)
  from c1 g1 c2 st g2 c3 failing_stage [of fresh_world] g3 sup adr
  show ?thesis
    by simp
qed

text \<open>
  C6. When the persisted mapping that \<open>set_peer\<close> reads has no address for the chain
  it runs on, or none for the home chain, \<open>set_peer\<close> raises \<open>KeyError\<close> on the missing
  chain ID (the specification's \<open>NotDeployed\<close>), and the only calls it has made are
  those of the connection: no peer-registration call is sent.
\<close>

theorem set_peer_not_deployed:
  assumes "read_deployments w = Some d"
    and "map_of d (KInt (chain_id e)) = None \<or> map_of d (KInt 11155111) = None"
  shows "fst (set_peer e w) =
           Inl (KeyError (if map_of d (KInt (chain_id e)) = None
                          then KInt (chain_id e) else KInt 11155111))
         \<and> calls (snd (set_peer e w)) = calls w @ [SetNetworkEnv, AddAccount]"
  using assms
  by (auto simp: set_peer_def Let_def read_deployments_connect getitem_def calls_connect
           split: option.splits)

theorem set_peer_not_deployed_witness:
  "read_deployments fresh_world = Some []
   \<and> fst (set_peer (sample_env 421614) fresh_world) = Inl (KeyError (KInt 421614))
   \<and> calls (snd (set_peer (sample_env 421614) fresh_world)) = [SetNetworkEnv, AddAccount]
   \<and> read_deployments (fresh_world\<lparr>yaml_file := Some (YMap [(KInt 421614, home_address)])\<rparr>)
       = Some [(KInt 421614, home_address)]
   \<and> fst (set_peer (sample_env 421614)
             (fresh_world\<lparr>yaml_file := Some (YMap [(KInt 421614, home_address)])\<rparr>))
       = Inl (KeyError (KInt 11155111))
   \<and> calls (snd (set_peer (sample_env 421614)
             (fresh_world\<lparr>yaml_file := Some (YMap [(KInt 421614, home_address)])\<rparr>)))
       = [SetNetworkEnv, AddAccount]"
proof -
  have r: "read_deployments fresh_world = Some []"
    by (simp add: read_deployments_def fresh_world_def)
  have m: "map_of ([] :: string py_dict) (KInt (chain_id (sample_env 421614))) = None
           \<or> map_of ([] :: string py_dict) (KInt 11155111) = None"
    by simp
  have r': "read_deployments (fresh_world\<lparr>yaml_file := Some (YMap [(KInt 421614, home_address)])\<rparr>)
              = Some [(KInt 421614, home_address)]"
    by (simp add: read_deployments_def)
  have m': "map_of [(KInt 421614, home_address)] (KInt (chain_id (sample_env 421614))) = None
            \<or> map_of [(KInt 421614, home_address)] (KInt 11155111) = None"
    by simp
  from set_peer_not_deployed [OF r m] set_peer_not_deployed [OF r' m'] r r' show ?thesis
    by (simp add: sample_env_def fresh_world_def)
qed

section \<open>The deployment salt\<close>

text \<open>
  C7. For a deployer address of 20 bytes and the 11 bytes that \<open>os.urandom(11)\<close>
  returns, the salt is the 20 address bytes, then the byte \<open>0x00\<close>, then the 11 random
  bytes: 32 bytes in all. Any other draw of random bytes gives another salt for the same
  deployer, and this salt is the one every factory call of \<open>deploy\<close> carries.
\<close>

theorem deployment_salt:
  assumes "is_address (eoa e)" and "length (urandom e 11) = 11"
  shows "\<exists>addr. fromhex (drop 2 (eoa e)) = Inr addr \<and> length addr = 20
           \<and> salt_view (eoa e) (urandom e 11) = Inr (addr @ [0] @ urandom e 11)
           \<and> length (addr @ [0] @ urandom e 11) = 32
           \<and> (\<forall>other. other \<noteq> urandom e 11 \<longrightarrow>
                 salt_view (eoa e) other \<noteq> salt_view (eoa e) (urandom e 11))
           \<and> (\<forall>s c. DeployCreate3 s c \<in> set (calls (snd (deploy e w))) \<longrightarrow>
                 DeployCreate3 s c \<in> set (calls w) \<or> s = addr @ [0] @ urandom e 11)"
proof -
  from address_guard_bytes [OF assms(1)] obtain addr where
    a: "fromhex (drop 2 (eoa e)) = Inr addr" "length addr = 20"
    and g: "fromhex (drop 2 (eoa e) @ ''00'') = Inr (addr @ [0])"
    by auto
  have s: "salt_view (eoa e) bs = Inr (addr @ [0] @ bs)" for bs
    by (simp add: salt_view_def g)
  have c: "DeployCreate3 s c \<in> set (calls (snd (deploy e w))) \<Longrightarrow>
           DeployCreate3 s c \<in> set (calls w) \<or> s = addr @ [0] @ urandom e 11" for s c
    by (auto simp: deploy_def Let_def s connect_def set_peer_calls
             split: sum.splits option.splits prod.splits if_splits)
  from a s c assms(2) show ?thesis by auto
qed

theorem deployment_salt_witness:
  "is_address (eoa (sample_env 421614)) \<and> length (urandom (sample_env 421614) 11) = 11
   \<and> salt_view (eoa (sample_env 421614)) (urandom (sample_env 421614) 11)
       = Inr [186, 94, 208, 153, 99, 61, 59, 49, 62, 77, 95, 123, 220, 19, 5, 211, 194, 139,
              165, 237, 0, 7, 7, 7, 7, 7, 7, 7, 7, 7, 7, 7]"
proof -
  have a: "is_address (eoa (sample_env 421614))"
    by (simp add: sample_env_def is_address_def hexval_def)
  have l: "length (urandom (sample_env 421614) 11) = 11"
    by (simp add: sample_env_def)
  have f: "fromhex (drop 2 (eoa (sample_env 421614)))
             = Inr [186, 94, 208, 153, 99, 61, 59, 49, 62, 77, 95, 123, 220, 19, 5, 211, 194,
                    139, 165, 237]"
    by (simp add: sample_env_def hexval_def isspace_def)
  have r: "urandom (sample_env 421614) 11 = [7, 7, 7, 7, 7, 7, 7, 7, 7, 7, 7]"
    by (simp add: sample_env_def eval_nat_numeral)
  from deployment_salt [OF a l, of fresh_world] a l show ?thesis
    by (auto simp: f r)
qed

section \<open>The peer-registration call\<close>




section \<open>The registry lookups\<close>

text \<open>
  C9. For every supported chain ID (a member of \<open>Network\<close>) the lookups
  \<open>lz_endpoints[chain_id]\<close> and \<open>LZ_EID[chain_id]\<close> return a value; for every other
  chain ID both raise \<open>KeyError\<close>, the failure the specification calls
  \<open>UnsupportedChain\<close>.
\<close>

theorem registry_lookups_defined_iff_supported:
  "(supported_chain c \<longrightarrow>
      (\<exists>a. getitem lz_endpoints (KInt c) = Inr a) \<and> (\<exists>n. getitem LZ_EID (KInt c) = Inr n))
   \<and> (\<not> supported_chain c \<longrightarrow>
      getitem lz_endpoints (KInt c) = Inl (KeyError (KInt c))
      \<and> getitem LZ_EID (KInt c) = Inl (KeyError (KInt c)))"
  by (simp add: supported_chain_def getitem_def lz_endpoints_def LZ_EID_def)

theorem registry_lookups_witness:
  "supported_chain 421614
   \<and> (\<exists>a. getitem lz_endpoints (KInt 421614) = Inr a)
   \<and> (\<exists>n. getitem LZ_EID (KInt 421614) = Inr n)
   \<and> \<not> supported_chain 1
   \<and> getitem lz_endpoints (KInt 1) = Inl (KeyError (KInt 1))
   \<and> getitem LZ_EID (KInt 1) = Inl (KeyError (KInt 1))"
  using registry_lookups_defined_iff_supported [of 421614]
        registry_lookups_defined_iff_supported [of 1]
  by (simp add: supported_chain_def)

section \<open>What \<open>deploy\<close> leaves alone\<close>

text \<open>
  C10. When the deployments file exists and holds a mapping, then after \<open>deploy\<close> on
  chain \<open>c\<close>, however the run ends, the file holds a mapping whose entry for every key
  other than \<open>c\<close> is what it was.
\<close>

theorem deploy_frame:
  assumes "yaml_file w = Some (YMap d)"
  shows "\<exists>d'. yaml_file (snd (deploy e w)) = Some (YMap d')
           \<and> (\<forall>k. k \<noteq> KInt (chain_id e) \<longrightarrow> map_of d' k = map_of d k)"
proof -
  from assms have r: "read_deployments w = Some d"
    by (simp add: read_deployments_def)
  from deploy_yaml_file [of e w] show ?thesis
  proof
    assume "yaml_file (snd (deploy e w)) = yaml_file w"
    with assms show ?thesis by simp
  next
    assume "\<exists>d address. read_deployments w = Some d
         \<and> yaml_file (snd (deploy e w))
             = Some (safe_dump (setitem d (KInt (chain_id e)) address))"
    with r obtain address where
      "yaml_file (snd (deploy e w))
         = Some (YMap (sorted_items (setitem d (KInt (chain_id e)) address)))"
      by (auto simp: safe_dump_def)
    then show ?thesis
      by (simp add: map_of_sorted_items map_of_setitem)
  qed
qed

theorem deploy_frame_witness:
  "yaml_file peered_world = Some (YMap [(KInt 11155111, home_address)])
   \<and> (\<exists>d'. yaml_file (snd (deploy (sample_env 421614) peered_world)) = Some (YMap d')
         \<and> map_of d' (KInt 11155111) = Some home_address)"
proof -
  have y: "yaml_file peered_world = Some (YMap [(KInt 11155111, home_address)])"
    by (simp add: peered_world_def fresh_world_def)
  from deploy_frame [OF y, of "sample_env 421614"] obtain d' where
    d: "yaml_file (snd (deploy (sample_env 421614) peered_world)) = Some (YMap d')"
    and f: "\<forall>k. k \<noteq> KInt (chain_id (sample_env 421614)) \<longrightarrow>
               map_of d' k = map_of [(KInt 11155111, home_address)] k"
    by blast
  from f have "map_of d' (KInt 11155111) = Some home_address"
    by (simp add: sample_env_def)
  with y d show ?thesis by blast
qed

end
